theory Spec2Isabelle
  imports Main "HOL-Library.Word" "HOL-Library.Sublist"
begin

section \<open>face-rec-service: the Flask application of app.py\<close>

text \<open>
  The service is one Python module: a model preload executed when the module is
  imported, a helper \<^verbatim>\<open>b64_to_numpy\<close>, and two POST handlers,
  \<^verbatim>\<open>generate_embedding\<close> and \<^verbatim>\<open>compare_faces\<close>. Everything else (PIL, DeepFace,
  \<^verbatim>\<open>json\<close>, \<^verbatim>\<open>base64\<close>) is library code outside the repository; the handlers are
  modelled as functions of a record of those library calls, each of which either
  returns a value or raises a Python exception.
\<close>

subsection \<open>Python values and exceptions\<close>

type_synonym bytes = "8 word list"

text \<open>
  The values that cross the JSON boundary. A float is kept as mantissa and binary
  exponent; the service never computes with one, it only passes them on.
\<close>

datatype pyval =
    PNone
  | PBool bool
  | PInt int
  | PFloat int int
  | PStr string
  | PList "pyval list"
  | PDict "(string \<times> pyval) list"

type_synonym pydict = "(string \<times> pyval) list"

text \<open>
  The exception classes the handlers can meet. \<^verbatim>\<open>json.JSONDecodeError\<close> and
  \<^verbatim>\<open>binascii.Error\<close> are subclasses of \<^verbatim>\<open>ValueError\<close>; \<^verbatim>\<open>PIL.UnidentifiedImageError\<close>
  is a subclass of \<^verbatim>\<open>OSError\<close>. \<open>OtherException\<close> stands for any further subclass of
  \<^verbatim>\<open>Exception\<close> that is not a \<^verbatim>\<open>ValueError\<close>. The string is \<^verbatim>\<open>str(e)\<close>. What is
  not an \<^verbatim>\<open>Exception\<close> (\<^verbatim>\<open>KeyboardInterrupt\<close>, \<^verbatim>\<open>SystemExit\<close>) is caught by no
  clause of the module and is not modelled.
\<close>

datatype exc_class =
    ValueError
  | JSONDecodeError
  | BinasciiError
  | UnidentifiedImageError
  | OSError
  | IndexError
  | KeyError
  | OtherException string

datatype pyexn = PyExn exc_class string

fun exc_str :: "pyexn \<Rightarrow> string" where
  "exc_str (PyExn c m) = m"

text \<open>\<^verbatim>\<open>isinstance(e, ValueError)\<close>: what the clause \<^verbatim>\<open>except ValueError\<close> catches.\<close>

fun is_ValueError :: "pyexn \<Rightarrow> bool" where
  "is_ValueError (PyExn ValueError m) = True"
| "is_ValueError (PyExn JSONDecodeError m) = True"
| "is_ValueError (PyExn BinasciiError m) = True"
| "is_ValueError (PyExn c m) = False"

definition quoted :: "string \<Rightarrow> string" where
  "quoted s = CHR 0x27 # s @ [CHR 0x27]"

text \<open>\<^verbatim>\<open>xs[i]\<close> on a list and \<^verbatim>\<open>d[k]\<close> on a dict, with the exceptions Python raises.\<close>

definition list_index :: "'a list \<Rightarrow> nat \<Rightarrow> pyexn + 'a" where
  "list_index xs i =
     (if i < length xs then Inr (xs ! i)
      else Inl (PyExn IndexError ''list index out of range''))"

definition dict_index :: "pydict \<Rightarrow> string \<Rightarrow> pyexn + pyval" where
  "dict_index d k =
     (case map_of d k of
        Some v \<Rightarrow> Inr v
      | None \<Rightarrow> Inl (PyExn KeyError (quoted k)))"

subsection \<open>The libraries the module calls\<close>

text \<open>An RGB pixel array as \<^verbatim>\<open>np.array\<close> of a PIL image in mode RGB: rows of pixels.\<close>

type_synonym ndarray = "(8 word \<times> 8 word \<times> 8 word) list list"

text \<open>
  A value of \<open>libs\<close> is the libraries as one request meets them. Two requests
  need not meet the same value: the text of an exception, for one, can name an
  object that exists for that request only.

  \<^item> \<open>build_model name\<close>: \<^verbatim>\<open>DeepFace.build_model(name)\<close>; the module discards the result.
  \<^item> \<open>open_rgb b\<close>: \<^verbatim>\<open>np.array(Image.open(BytesIO(b)).convert("RGB"))\<close>.
  \<^item> \<open>b64decode s\<close>: \<^verbatim>\<open>base64.b64decode(s)\<close>.
  \<^item> \<open>json_loads s\<close>: \<^verbatim>\<open>json.loads(s)\<close>.
  \<^item> \<open>represent img model enforce detector\<close>: \<^verbatim>\<open>DeepFace.represent\<close>, a list of dicts.
  \<^item> \<open>verify img1 img2 model detector metric enforce\<close>: \<^verbatim>\<open>DeepFace.verify\<close>, a dict.
\<close>

record libs =
  build_model :: "string \<Rightarrow> pyexn + unit"
  open_rgb :: "bytes \<Rightarrow> pyexn + ndarray"
  b64decode :: "string \<Rightarrow> pyexn + bytes"
  json_loads :: "string \<Rightarrow> pyexn + pyval"
  represent :: "ndarray \<Rightarrow> string \<Rightarrow> bool \<Rightarrow> string \<Rightarrow> pyexn + pydict list"
  verify :: "ndarray \<Rightarrow> pyval \<Rightarrow> string \<Rightarrow> string \<Rightarrow> string \<Rightarrow> bool \<Rightarrow> pyexn + pydict"

definition MODEL_NAME :: string where
  "MODEL_NAME = ''SFace''"

definition DETECTOR_BACKEND :: string where
  "DETECTOR_BACKEND = ''retinaface''"

definition DISTANCE_METRIC :: string where
  "DISTANCE_METRIC = ''cosine''"

subsection \<open>Requests, responses and what a handler leaves behind\<close>

text \<open>
  A parsed Flask request: \<open>files\<close> maps a multipart field to the bytes its upload
  reads, \<open>form\<close> maps a form field to its text.
\<close>

record request =
  meth :: string
  path :: string
  files :: "string \<rightharpoonup> bytes"
  form :: "string \<rightharpoonup> string"

text \<open>
  \<^verbatim>\<open>(jsonify(k1=v1, ...), code)\<close>: the JSON object as its key/value pairs. Every
  \<open>pyval\<close> is JSON-serialisable, so \<^verbatim>\<open>jsonify\<close> itself does not raise.
\<close>

record response =
  status :: nat
  body :: pydict

text \<open>
  The effects of a handler besides its response, in program order: entering a
  DeepFace call, \<^verbatim>\<open>print\<close> on stdout, and \<^verbatim>\<open>traceback.print_exc()\<close> on stderr.
\<close>

datatype event =
    Invoke_represent ndarray
  | Invoke_verify ndarray pyval
  | Print_result pydict
  | Print_exc pyexn

subsection \<open>b64\_to\_numpy\<close>

text \<open>\<^verbatim>\<open>sub in s\<close> on strings.\<close>

fun str_contains :: "string \<Rightarrow> string \<Rightarrow> bool" where
  "str_contains sub [] = (sub = [])"
| "str_contains sub (c # cs) = (prefix sub (c # cs) \<or> str_contains sub cs)"

text \<open>\<^verbatim>\<open>s.split(sep)\<close> for a one-character separator: every occurrence splits.\<close>

fun str_split :: "char \<Rightarrow> string \<Rightarrow> string list" where
  "str_split sep [] = [[]]"
| "str_split sep (c # cs) =
     (if c = sep then [] # str_split sep cs
      else (case str_split sep cs of
              w # ws \<Rightarrow> (c # w) # ws
            | [] \<Rightarrow> [[c]]))"

text \<open>Lines 41-42: the text that is handed to \<^verbatim>\<open>base64.b64decode\<close>.\<close>

definition b64_payload :: "string \<Rightarrow> pyexn + string" where
  "b64_payload b64_string =
     (if str_contains ''data:image'' b64_string
      then list_index (str_split CHR '','' b64_string) 1
      else Inr b64_string)"

definition b64_to_numpy :: "libs \<Rightarrow> string \<Rightarrow> pyexn + ndarray" where
  "b64_to_numpy L b64_string =
     (case b64_payload b64_string of
        Inl e \<Rightarrow> Inl e
      | Inr payload \<Rightarrow>
          (case b64decode L payload of
             Inl e \<Rightarrow> Inl e
           | Inr img_bytes \<Rightarrow> open_rgb L img_bytes))"

subsection \<open>POST /generate-embedding\<close>

text \<open>The body of the \<^verbatim>\<open>try\<close> block: a response, or the exception that leaves it.\<close>

definition generate_embedding_try :: "libs \<Rightarrow> request \<Rightarrow> (pyexn + response) \<times> event list" where
  "generate_embedding_try L req =
     (case files req ''face'' of
        None \<Rightarrow>
          (Inr \<lparr>status = 400, body = [(''error'', PStr ''No image file provided.'')]\<rparr>, [])
      | Some img_bytes \<Rightarrow>
          (case open_rgb L img_bytes of
             Inl e \<Rightarrow> (Inl e, [])
           | Inr np_img \<Rightarrow>
               (case represent L np_img MODEL_NAME True DETECTOR_BACKEND of
                  Inl e \<Rightarrow> (Inl e, [Invoke_represent np_img])
                | Inr embedding_objs \<Rightarrow>
                    (case list_index embedding_objs 0 of
                       Inl e \<Rightarrow> (Inl e, [Invoke_represent np_img])
                     | Inr obj0 \<Rightarrow>
                         (case dict_index obj0 ''embedding'' of
                            Inl e \<Rightarrow> (Inl e, [Invoke_represent np_img])
                          | Inr embedding \<Rightarrow>
                              (Inr \<lparr>status = 200, body = [(''embedding'', embedding)]\<rparr>,
                               [Invoke_represent np_img]))))))"

text \<open>The handler: the \<^verbatim>\<open>try\<close> block under its single clause \<^verbatim>\<open>except Exception\<close>.\<close>

definition generate_embedding :: "libs \<Rightarrow> request \<Rightarrow> response \<times> event list" where
  "generate_embedding L req =
     (case generate_embedding_try L req of
        (Inr r, evs) \<Rightarrow> (r, evs)
      | (Inl e, evs) \<Rightarrow>
          (\<lparr>status = 500,
            body = [(''error'', PStr (''An error occurred: '' @ exc_str e))]\<rparr>,
           evs @ [Print_exc e]))"

subsection \<open>POST /compare-faces\<close>

definition compare_faces_try :: "libs \<Rightarrow> request \<Rightarrow> (pyexn + response) \<times> event list" where
  "compare_faces_try L req =
     (case files req ''face'' of
        None \<Rightarrow>
          (Inr \<lparr>status = 400,
                body = [(''error'', PStr ''No face image provided for comparison.'')]\<rparr>, [])
      | Some img_bytes \<Rightarrow>
          (case form req ''stored_embedding'' of
             None \<Rightarrow>
               (Inr \<lparr>status = 400,
                     body = [(''error'', PStr ''No stored embedding provided.'')]\<rparr>, [])
           | Some stored_embedding_json \<Rightarrow>
               if stored_embedding_json = []
               then (Inr \<lparr>status = 400,
                          body = [(''error'', PStr ''No stored embedding provided.'')]\<rparr>, [])
               else
                 (case open_rgb L img_bytes of
                    Inl e \<Rightarrow> (Inl e, [])
                  | Inr np_img_to_verify \<Rightarrow>
                      (case json_loads L stored_embedding_json of
                         Inl e \<Rightarrow> (Inl e, [])
                       | Inr stored_embedding \<Rightarrow>
                           (case verify L np_img_to_verify stored_embedding
                                   MODEL_NAME DETECTOR_BACKEND DISTANCE_METRIC True of
                              Inl e \<Rightarrow>
                                (Inl e, [Invoke_verify np_img_to_verify stored_embedding])
                            | Inr result \<Rightarrow>
                                (case dict_index result ''verified'' of
                                   Inl e \<Rightarrow>
                                     (Inl e, [Invoke_verify np_img_to_verify stored_embedding])
                                 | Inr is_match \<Rightarrow>
                                     (Inr \<lparr>status = 200, body = [(''is_match'', is_match)]\<rparr>,
                                      [Invoke_verify np_img_to_verify stored_embedding,
                                       Print_result result])))))))"

text \<open>
  The handler: \<^verbatim>\<open>except ValueError\<close> first, then \<^verbatim>\<open>except Exception\<close>. Only the second
  clause prints the traceback.
\<close>

definition compare_faces :: "libs \<Rightarrow> request \<Rightarrow> response \<times> event list" where
  "compare_faces L req =
     (case compare_faces_try L req of
        (Inr r, evs) \<Rightarrow> (r, evs)
      | (Inl e, evs) \<Rightarrow>
          if is_ValueError e
          then (\<lparr>status = 400,
                 body = [(''error'', PStr (''Could not process image: '' @ exc_str e)),
                         (''is_match'', PBool False)]\<rparr>,
                evs)
          else (\<lparr>status = 500,
                 body = [(''error'',
                          PStr (''An internal error occurred during comparison: '' @ exc_str e)),
                         (''is_match'', PBool False)]\<rparr>,
                evs @ [Print_exc e]))"

subsection \<open>Importing the module\<close>








subsection \<open>A test double for the libraries\<close>

text \<open>
  The concrete inputs of the examples below. \<open>tiny_png\<close> is a complete PNG file: one
  black pixel, 8-bit RGB. \<open>face_photo\<close> stands for an upload in which the detector
  finds two faces; its bytes and pixels are placeholders.
\<close>

definition tiny_png :: bytes where
  "tiny_png =
     [0x89, 0x50, 0x4E, 0x47, 0x0D, 0x0A, 0x1A, 0x0A, 0x00, 0x00, 0x00, 0x0D,
      0x49, 0x48, 0x44, 0x52, 0x00, 0x00, 0x00, 0x01, 0x00, 0x00, 0x00, 0x01,
      0x08, 0x02, 0x00, 0x00, 0x00, 0x90, 0x77, 0x53, 0xDE, 0x00, 0x00, 0x00,
      0x0C, 0x49, 0x44, 0x41, 0x54, 0x78, 0xDA, 0x63, 0x60, 0x60, 0x60, 0x00,
      0x00, 0x00, 0x04, 0x00, 0x01, 0xC8, 0xEA, 0xEB, 0xF9, 0x00, 0x00, 0x00,
      0x00, 0x49, 0x45, 0x4E, 0x44, 0xAE, 0x42, 0x60, 0x82]"

definition tiny_png_b64 :: string where
  "tiny_png_b64 =
     ''iVBORw0KGgoAAAANSUhEUgAAAAEAAAABCAIAAACQd1PeAAAADElEQVR42mNgYGAAAAAEAAHI6uv5AAAAAElFTkSuQmCC''"

definition black_pixel :: ndarray where
  "black_pixel = [[(0, 0, 0)]]"

definition face_photo :: bytes where
  "face_photo = [0xFF, 0xD8, 0xFF, 0xE0]"

definition face_pixels :: ndarray where
  "face_pixels = [[(201, 160, 140), (198, 158, 139)], [(190, 150, 131), (60, 40, 35)]]"

definition first_vec :: pyval where
  "first_vec = PList [PFloat 1 (-1), PFloat (-3) (-2), PFloat 5 (-4), PFloat 0 0]"

definition second_vec :: pyval where
  "second_vec = PList [PFloat (-7) (-3), PFloat 1 (-2), PFloat 1 0, PFloat 3 (-5)]"

definition first_face :: pydict where
  "first_face = [(''embedding'', first_vec), (''face_confidence'', PFloat 99 (-7))]"

definition second_face :: pydict where
  "second_face = [(''embedding'', second_vec), (''face_confidence'', PFloat 95 (-7))]"

definition verify_result :: pydict where
  "verify_result =
     [(''verified'', PBool True), (''distance'', PFloat 0 0), (''model'', PStr ''SFace''),
      (''detector_backend'', PStr ''retinaface''), (''similarity_metric'', PStr ''cosine'')]"

definition json_string_abc :: string where
  "json_string_abc = CHR 0x22 # ''abc'' @ [CHR 0x22]"

definition unidentified :: pyexn where
  "unidentified =
     PyExn UnidentifiedImageError
       ''cannot identify image file <_io.BytesIO object at 0x7f3a5c0b2d10>''"

definition no_face :: pyexn where
  "no_face =
     PyExn ValueError
       (''Face could not be detected in numpy array.'' @
        ''Please confirm that the picture is a face photo '' @
        ''or consider to set enforce_detection param to False.'')"

definition expecting_value :: pyexn where
  "expecting_value = PyExn JSONDecodeError ''Expecting value: line 1 column 1 (char 0)''"

text \<open>
  \<open>stub_libs\<close> answers the inputs used below the way the libraries do (PIL cannot
  identify an empty file; the detector finds no face in one black pixel;
  \<^verbatim>\<open>json.loads\<close> rejects \<^verbatim>\<open>not json\<close> and reads a quoted string as a string) and
  rejects every input it does not know.
\<close>

definition stub_libs :: libs where
  "stub_libs =
     \<lparr>build_model = (\<lambda>name. Inr ()),
      open_rgb = (\<lambda>b. if b = tiny_png then Inr black_pixel
                       else if b = face_photo then Inr face_pixels
                       else Inl unidentified),
      b64decode = (\<lambda>s. if s = tiny_png_b64 then Inr tiny_png
                        else Inl (PyExn BinasciiError ''Incorrect padding'')),
      json_loads = (\<lambda>s. if s = json_string_abc then Inr (PStr ''abc'')
                         else if s = ''[0.5, -0.75, 0.3125, 0.0]'' then Inr first_vec
                         else if s = ''[0.5, -0.75]'' then Inr (PList [PFloat 1 (-1), PFloat (-3) (-2)])
                         else Inl expecting_value),
      represent = (\<lambda>img model enforce detector.
                     if img = face_pixels then Inr [first_face, second_face]
                     else Inl no_face),
      verify = (\<lambda>img1 img2 model detector metric enforce.
                  if img1 \<noteq> face_pixels
                  then Inl (PyExn ValueError ''Exception while processing img1_path'')
                  else if img2 = first_vec then Inr verify_result
                  else Inl (PyExn ValueError ''Exception while processing img2_path''))\<rparr>"


text \<open>
  The libraries as a later request meets them: PIL's refusal names the
  \<^verbatim>\<open>BytesIO\<close> object of that request, which lives at another address.
\<close>

definition unidentified_later :: pyexn where
  "unidentified_later =
     PyExn UnidentifiedImageError
       ''cannot identify image file <_io.BytesIO object at 0x7f3a5c0d9e50>''"

definition later_libs :: libs where
  "later_libs =
     stub_libs\<lparr>open_rgb :=
       (\<lambda>b. if b = tiny_png then Inr black_pixel
            else if b = face_photo then Inr face_pixels
            else Inl unidentified_later)\<rparr>"

definition upload :: "string \<Rightarrow> bytes \<Rightarrow> request" where
  "upload p b = \<lparr>meth = ''POST'', path = p, files = [''face'' \<mapsto> b], form = Map.empty\<rparr>"

definition upload_with :: "string \<Rightarrow> bytes \<Rightarrow> string \<Rightarrow> request" where
  "upload_with p b s =
     \<lparr>meth = ''POST'', path = p, files = [''face'' \<mapsto> b],
      form = [''stored_embedding'' \<mapsto> s]\<rparr>"

definition bare_post :: "string \<Rightarrow> request" where
  "bare_post p = \<lparr>meth = ''POST'', path = p, files = Map.empty, form = Map.empty\<rparr>"

section \<open>Properties\<close>

subsection \<open>Evaluating the test double\<close>

lemma stub_open_tiny: "open_rgb stub_libs tiny_png = Inr black_pixel"
  by (simp add: stub_libs_def)

lemma stub_open_face: "open_rgb stub_libs face_photo = Inr face_pixels"
  by (simp add: stub_libs_def tiny_png_def face_photo_def)

lemma stub_open_empty: "open_rgb stub_libs [] = Inl unidentified"
  by (simp add: stub_libs_def tiny_png_def face_photo_def)

lemma pixels_differ: "black_pixel \<noteq> face_pixels"
  by (simp add: black_pixel_def face_pixels_def)

lemma stub_represent_tiny: "represent stub_libs black_pixel m enf d = Inl no_face"
  by (simp add: stub_libs_def pixels_differ)

lemma stub_represent_face:
  "represent stub_libs face_pixels m enf d = Inr [first_face, second_face]"
  by (simp add: stub_libs_def)

subsection \<open>POST /generate-embedding\<close>

text \<open>
  C10: when the embedder returns a non-empty list of per-face objects,
  /generate-embedding looks at the first element only: if it carries an embedding
  the answer is 200 with exactly that embedding as its body, so a 200 never shows
  anything of the other elements (and without the key the answer is a 500).
\<close>

theorem generate_embedding_first_face:
  assumes "files req ''face'' = Some img_bytes"
    and "open_rgb L img_bytes = Inr np_img"
    and "represent L np_img MODEL_NAME True DETECTOR_BACKEND = Inr (obj0 # others)"
  shows "fst (generate_embedding L req) =
           (case map_of obj0 ''embedding'' of
              Some embedding \<Rightarrow> \<lparr>status = 200, body = [(''embedding'', embedding)]\<rparr>
            | None \<Rightarrow>
                \<lparr>status = 500,
                 body = [(''error'', PStr (''An error occurred: '' @ quoted ''embedding''))]\<rparr>)"
  using assms
  by (simp add: generate_embedding_def generate_embedding_try_def list_index_def
      dict_index_def split: option.splits)

theorem generate_embedding_first_face_witness:
  "fst (generate_embedding stub_libs (upload ''/generate-embedding'' face_photo)) =
     \<lparr>status = 200, body = [(''embedding'', first_vec)]\<rparr>"
  using generate_embedding_first_face
    [of "upload ''/generate-embedding'' face_photo" face_photo stub_libs face_pixels
      first_face "[second_face]"]
  by (simp add: upload_def stub_open_face stub_represent_face first_face_def)

lemma later_open_face: "open_rgb later_libs face_photo = Inr face_pixels"
  by (simp add: later_libs_def tiny_png_def face_photo_def)

lemma later_open_empty: "open_rgb later_libs [] = Inl unidentified_later"
  by (simp add: later_libs_def tiny_png_def face_photo_def)

lemma later_represent: "represent later_libs = represent stub_libs"
  by (simp add: later_libs_def)

text \<open>
  C9: two calls of /generate-embedding with the same face bytes, the libraries
  being \<open>L1\<close> during the first call and \<open>L2\<close> during the second. If decoding
  and embedding return in the second call what they returned in the first, a 200
  answer of the first call is repeated by the second: the same embedding vector
  and the same effects. If the two also fail alike, the calls agree on every
  response. Nothing else of the request, and no other library call, enters the
  answer.
\<close>

theorem generate_embedding_deterministic:
  assumes "files r1 ''face'' = files r2 ''face''"
  shows "((\<forall>b img. files r1 ''face'' = Some b \<and> open_rgb L1 b = Inr img \<longrightarrow>
             open_rgb L2 b = Inr img
             \<and> (\<forall>objs. represent L1 img MODEL_NAME True DETECTOR_BACKEND = Inr objs \<longrightarrow>
                    represent L2 img MODEL_NAME True DETECTOR_BACKEND = Inr objs))
          \<and> status (fst (generate_embedding L1 r1)) = 200
          \<longrightarrow> generate_embedding L2 r2 = generate_embedding L1 r1)
         \<and> ((\<forall>b. files r1 ''face'' = Some b \<longrightarrow>
                open_rgb L2 b = open_rgb L1 b
                \<and> (\<forall>img. open_rgb L1 b = Inr img \<longrightarrow>
                       represent L2 img MODEL_NAME True DETECTOR_BACKEND =
                       represent L1 img MODEL_NAME True DETECTOR_BACKEND))
             \<longrightarrow> generate_embedding L2 r2 = generate_embedding L1 r1)"
proof (intro conjI impI)
  assume h: "(\<forall>b img. files r1 ''face'' = Some b \<and> open_rgb L1 b = Inr img \<longrightarrow>
             open_rgb L2 b = Inr img
             \<and> (\<forall>objs. represent L1 img MODEL_NAME True DETECTOR_BACKEND = Inr objs \<longrightarrow>
                    represent L2 img MODEL_NAME True DETECTOR_BACKEND = Inr objs))
          \<and> status (fst (generate_embedding L1 r1)) = 200"
  then have ok: "status (fst (generate_embedding L1 r1)) = 200" by blast
  show "generate_embedding L2 r2 = generate_embedding L1 r1"
  proof (cases "files r1 ''face''")
    case None
    with ok show ?thesis
      by (simp add: generate_embedding_def generate_embedding_try_def)
  next
    case (Some b)
    show ?thesis
    proof (cases "open_rgb L1 b")
      case (Inl e)
      with ok Some show ?thesis
        by (simp add: generate_embedding_def generate_embedding_try_def)
    next
      case (Inr img)
      with h Some have d2: "open_rgb L2 b = Inr img" by blast
      show ?thesis
      proof (cases "represent L1 img MODEL_NAME True DETECTOR_BACKEND")
        case (Inl e)
        with ok Some Inr show ?thesis
          by (simp add: generate_embedding_def generate_embedding_try_def)
      next
        case objs: (Inr objs)
        with h Some Inr
        have "represent L2 img MODEL_NAME True DETECTOR_BACKEND = Inr objs" by blast
        with objs Some Inr d2 assms show ?thesis
          by (simp add: generate_embedding_def generate_embedding_try_def)
      qed
    qed
  qed
next
  assume h: "\<forall>b. files r1 ''face'' = Some b \<longrightarrow>
                open_rgb L2 b = open_rgb L1 b
                \<and> (\<forall>img. open_rgb L1 b = Inr img \<longrightarrow>
                       represent L2 img MODEL_NAME True DETECTOR_BACKEND =
                       represent L1 img MODEL_NAME True DETECTOR_BACKEND)"
  show "generate_embedding L2 r2 = generate_embedding L1 r1"
  proof (cases "files r1 ''face''")
    case None
    with assms show ?thesis
      by (simp add: generate_embedding_def generate_embedding_try_def)
  next
    case (Some b)
    with h have d: "open_rgb L2 b = open_rgb L1 b" by blast
    show ?thesis
    proof (cases "open_rgb L1 b")
      case (Inl e)
      with d Some assms show ?thesis
        by (simp add: generate_embedding_def generate_embedding_try_def)
    next
      case (Inr img)
      with h Some
      have "represent L2 img MODEL_NAME True DETECTOR_BACKEND =
          represent L1 img MODEL_NAME True DETECTOR_BACKEND"
        by blast
      with d Inr Some assms show ?thesis
        by (simp add: generate_embedding_def generate_embedding_try_def)
    qed
  qed
qed

theorem generate_embedding_deterministic_witness:
  "generate_embedding later_libs (upload_with ''/elsewhere'' face_photo ''[0.5, -0.75]'') =
     generate_embedding stub_libs (upload ''/generate-embedding'' face_photo)
   \<and> fst (generate_embedding stub_libs (upload ''/generate-embedding'' face_photo)) =
       \<lparr>status = 200, body = [(''embedding'', first_vec)]\<rparr>"
proof -
  let ?r1 = "upload ''/generate-embedding'' face_photo"
  let ?r2 = "upload_with ''/elsewhere'' face_photo ''[0.5, -0.75]''"
  have same: "files ?r1 ''face'' = files ?r2 ''face''"
    by (simp add: upload_def upload_with_def)
  have first: "fst (generate_embedding stub_libs ?r1) =
      \<lparr>status = 200, body = [(''embedding'', first_vec)]\<rparr>"
    by (simp add: generate_embedding_def generate_embedding_try_def upload_def
        stub_open_face stub_represent_face list_index_def dict_index_def first_face_def)
  then have ok: "status (fst (generate_embedding stub_libs ?r1)) = 200" by simp
  have again: "\<forall>b img. files ?r1 ''face'' = Some b \<and> open_rgb stub_libs b = Inr img \<longrightarrow>
      open_rgb later_libs b = Inr img
      \<and> (\<forall>objs. represent stub_libs img MODEL_NAME True DETECTOR_BACKEND = Inr objs \<longrightarrow>
             represent later_libs img MODEL_NAME True DETECTOR_BACKEND = Inr objs)"
    by (simp add: upload_def stub_open_face later_open_face later_represent)
  from generate_embedding_deterministic [OF same, of stub_libs later_libs] again ok
  have "generate_embedding later_libs ?r2 = generate_embedding stub_libs ?r1" by blast
  with first show ?thesis by simp
qed

text \<open>
  Where the libraries of the two calls fail differently the answers differ too:
  the upload of an empty file is answered 500 both times, each time with the
  text of that call's exception.
\<close>

lemma error_text_differs_between_calls:
  "files (upload ''/generate-embedding'' []) ''face'' = Some []
   \<and> open_rgb later_libs [] \<noteq> open_rgb stub_libs []
   \<and> fst (generate_embedding later_libs (upload ''/generate-embedding'' [])) \<noteq>
       fst (generate_embedding stub_libs (upload ''/generate-embedding'' []))"
  by (simp add: upload_def stub_open_empty later_open_empty unidentified_def
      unidentified_later_def generate_embedding_def generate_embedding_try_def)

text \<open>
  C1: what the handler does when the image decodes and the embedder raises, as it
  does with \<^verbatim>\<open>ValueError\<close> when it detects no face: the single clause
  \<^verbatim>\<open>except Exception\<close> answers 500. The body has the \<^verbatim>\<open>error\<close> key and no
  \<^verbatim>\<open>embedding\<close> key; the status is not the 400 that /compare-faces gives the same
  exception.
\<close>

theorem generate_embedding_no_face:
  assumes "files req ''face'' = Some img_bytes"
    and "open_rgb L img_bytes = Inr np_img"
    and "represent L np_img MODEL_NAME True DETECTOR_BACKEND = Inl e"
  shows "generate_embedding L req =
           (\<lparr>status = 500, body = [(''error'', PStr (''An error occurred: '' @ exc_str e))]\<rparr>,
            [Invoke_represent np_img, Print_exc e])"
  using assms by (simp add: generate_embedding_def generate_embedding_try_def)

theorem generate_embedding_no_face_witness:
  "is_ValueError no_face
   \<and> generate_embedding stub_libs (upload ''/generate-embedding'' tiny_png) =
       (\<lparr>status = 500, body = [(''error'', PStr (''An error occurred: '' @ exc_str no_face))]\<rparr>,
        [Invoke_represent black_pixel, Print_exc no_face])"
  using generate_embedding_no_face
    [of "upload ''/generate-embedding'' tiny_png" tiny_png stub_libs black_pixel no_face]
  by (simp add: upload_def stub_open_tiny stub_represent_tiny no_face_def)

subsection \<open>POST /compare-faces\<close>

text \<open>
  C3: the two guards at the head of /compare-faces answer 400 with a body that
  has the \<^verbatim>\<open>error\<close> key only: a request without the face file, or without a
  non-empty stored\_embedding field, gets no \<^verbatim>\<open>is_match\<close> key, unlike the
  responses of the two exception clauses of the same handler.
\<close>

theorem compare_faces_missing_input:
  assumes "files req ''face'' = None \<or> form req ''stored_embedding'' = None
             \<or> form req ''stored_embedding'' = Some []"
  shows "status (fst (compare_faces L req)) = 400
         \<and> map_of (body (fst (compare_faces L req))) ''is_match'' = None
         \<and> map_of (body (fst (compare_faces L req))) ''error'' \<noteq> None"
  using assms
  by (auto simp add: compare_faces_def compare_faces_try_def split: option.splits)

theorem compare_faces_missing_input_witness:
  "fst (compare_faces stub_libs (bare_post ''/compare-faces'')) =
     \<lparr>status = 400, body = [(''error'', PStr ''No face image provided for comparison.'')]\<rparr>
   \<and> map_of (body (fst (compare_faces stub_libs (bare_post ''/compare-faces'')))) ''is_match''
       = None
   \<and> fst (compare_faces stub_libs (upload ''/compare-faces'' face_photo)) =
     \<lparr>status = 400, body = [(''error'', PStr ''No stored embedding provided.'')]\<rparr>"
  using compare_faces_missing_input [of "bare_post ''/compare-faces''" stub_libs]
  by (simp add: compare_faces_def compare_faces_try_def bare_post_def upload_def)

lemma stub_json_not_json: "json_loads stub_libs ''not json'' = Inl expecting_value"
  by (simp add: stub_libs_def json_string_abc_def)

lemma stub_json_abc: "json_loads stub_libs json_string_abc = Inr (PStr ''abc'')"
  by (simp add: stub_libs_def)

lemma json_string_abc_nonempty: "json_string_abc \<noteq> []"
  by (simp add: json_string_abc_def)

lemma stub_json_short:
  "json_loads stub_libs ''[0.5, -0.75]'' = Inr (PList [PFloat 1 (-1), PFloat (-3) (-2)])"
  by (simp add: stub_libs_def json_string_abc_def)

lemma stub_json_first_vec: "json_loads stub_libs ''[0.5, -0.75, 0.3125, 0.0]'' = Inr first_vec"
  by (simp add: stub_libs_def json_string_abc_def)

lemma stub_verify_tiny:
  "verify stub_libs black_pixel v m d dm enf =
     Inl (PyExn ValueError ''Exception while processing img1_path'')"
  by (simp add: stub_libs_def pixels_differ)

lemma stub_verify_face:
  "verify stub_libs face_pixels v m d dm enf =
     (if v = first_vec then Inr verify_result
      else Inl (PyExn ValueError ''Exception while processing img2_path''))"
  by (simp add: stub_libs_def)




text \<open>
  C4, as stated, fails: a stored\_embedding that is not JSON, sent with a face
  file that PIL cannot identify, is answered 500, because the image is decoded
  before the embedding is parsed.
\<close>

theorem stored_embedding_counterexample:
  "json_loads stub_libs ''not json'' = Inl expecting_value
   \<and> is_ValueError expecting_value
   \<and> status (fst (compare_faces stub_libs (upload_with ''/compare-faces'' [] ''not json'')))
       = 500"
  by (simp add: stub_json_not_json expecting_value_def stub_open_empty unidentified_def
      compare_faces_def compare_faces_try_def upload_with_def)

text \<open>
  C4, amended: for a request to /compare-faces whose face image decodes, an empty
  stored\_embedding is answered 400 as missing, and one that \<^verbatim>\<open>json.loads\<close> rejects
  with its \<^verbatim>\<open>JSONDecodeError\<close> (a \<^verbatim>\<open>ValueError\<close>) is answered 400. A value that
  parses is not checked by the handler, neither its type nor its length: it is
  handed to \<^verbatim>\<open>DeepFace.verify\<close>, and the status is 400 if that raises a
  \<^verbatim>\<open>ValueError\<close>, 500 if it raises anything else or returns no \<^verbatim>\<open>verified\<close> key,
  and 200 otherwise.
\<close>

theorem stored_embedding_status:
  assumes "files req ''face'' = Some img_bytes"
    and "open_rgb L img_bytes = Inr np_img"
    and "form req ''stored_embedding'' = Some s"
  shows "status (fst (compare_faces L req)) =
           (if s = [] then 400
            else case json_loads L s of
                   Inl e \<Rightarrow> if is_ValueError e then 400 else 500
                 | Inr v \<Rightarrow>
                     (case verify L np_img v MODEL_NAME DETECTOR_BACKEND DISTANCE_METRIC True of
                        Inl e \<Rightarrow> if is_ValueError e then 400 else 500
                      | Inr result \<Rightarrow> if map_of result ''verified'' = None then 500 else 200))"
  using assms
  by (auto simp add: compare_faces_def compare_faces_try_def dict_index_def
      split: sum.splits option.splits)

theorem stored_embedding_status_witness:
  "status (fst (compare_faces stub_libs (upload_with ''/compare-faces'' tiny_png ''not json'')))
     = 400
   \<and> status (fst (compare_faces stub_libs
        (upload_with ''/compare-faces'' face_photo ''[0.5, -0.75]''))) = 400
   \<and> status (fst (compare_faces stub_libs
        (upload_with ''/compare-faces'' face_photo ''[0.5, -0.75, 0.3125, 0.0]''))) = 200"
  using stored_embedding_status
    [of "upload_with ''/compare-faces'' tiny_png ''not json''" tiny_png stub_libs black_pixel
      "''not json''"]
    stored_embedding_status
    [of "upload_with ''/compare-faces'' face_photo ''[0.5, -0.75]''" face_photo stub_libs
      face_pixels "''[0.5, -0.75]''"]
    stored_embedding_status
    [of "upload_with ''/compare-faces'' face_photo ''[0.5, -0.75, 0.3125, 0.0]''" face_photo
      stub_libs face_pixels "''[0.5, -0.75, 0.3125, 0.0]''"]
  by (simp add: upload_with_def stub_open_tiny stub_open_face stub_json_not_json
      stub_json_short stub_json_first_vec stub_verify_face expecting_value_def
      first_vec_def verify_result_def)

text \<open>
  C5, as stated, fails: a stored\_embedding that is the JSON string \<^verbatim>\<open>"abc"\<close>, sent
  with the one-pixel PNG, reaches \<^verbatim>\<open>DeepFace.verify\<close> as its second argument.
\<close>

theorem unvalidated_embedding_counterexample:
  "json_loads stub_libs json_string_abc = Inr (PStr ''abc'')
   \<and> snd (compare_faces stub_libs (upload_with ''/compare-faces'' tiny_png json_string_abc)) =
       [Invoke_verify black_pixel (PStr ''abc'')]"
  by (simp add: stub_json_abc stub_open_tiny stub_verify_tiny compare_faces_def
      compare_faces_try_def upload_with_def json_string_abc_nonempty)

text \<open>
  C5, amended: /compare-faces does not validate the parsed stored embedding.
  When the image decodes and \<^verbatim>\<open>json.loads\<close> returns a value, of whatever JSON type
  and length, the handler's first effect is the call of \<^verbatim>\<open>DeepFace.verify\<close> with
  exactly that value; only a payload that \<^verbatim>\<open>json.loads\<close> rejects stops short of the
  comparison.
\<close>

theorem stored_embedding_unvalidated:
  assumes "files req ''face'' = Some img_bytes"
    and "open_rgb L img_bytes = Inr np_img"
    and "form req ''stored_embedding'' = Some s"
    and "s \<noteq> []"
  shows "case json_loads L s of
           Inr v \<Rightarrow> (\<exists>rest. snd (compare_faces L req) = Invoke_verify np_img v # rest)
         | Inl e \<Rightarrow> snd (compare_faces L req) = (if is_ValueError e then [] else [Print_exc e])"
  using assms
  by (auto simp add: compare_faces_def compare_faces_try_def split: sum.splits)

theorem stored_embedding_unvalidated_witness:
  "snd (compare_faces stub_libs (upload_with ''/compare-faces'' face_photo json_string_abc)) =
     [Invoke_verify face_pixels (PStr ''abc'')]
   \<and> snd (compare_faces stub_libs (upload_with ''/compare-faces'' face_photo ''not json'')) = []"
  using stored_embedding_unvalidated
    [of "upload_with ''/compare-faces'' face_photo json_string_abc" face_photo stub_libs
      face_pixels json_string_abc]
    stored_embedding_unvalidated
    [of "upload_with ''/compare-faces'' face_photo ''not json''" face_photo stub_libs
      face_pixels "''not json''"]
  by (simp add: upload_with_def stub_open_face stub_json_abc stub_json_not_json
      stub_verify_face compare_faces_def compare_faces_try_def expecting_value_def
      first_vec_def json_string_abc_nonempty)

subsection \<open>b64\_to\_numpy\<close>

lemma str_split_nonempty: "str_split sep s \<noteq> []"
  by (induction s) (auto split: list.splits)

lemma str_split_no_sep: "sep \<notin> set s \<Longrightarrow> str_split sep s = [s]"
  by (induction s) auto

lemma str_split_at_sep:
  "sep \<notin> set pre \<Longrightarrow> str_split sep (pre @ sep # rest) = pre # str_split sep rest"
  by (induction pre) auto

lemma hd_str_split: "hd (str_split sep s) = takeWhile (\<lambda>c. c \<noteq> sep) s"
  by (induction s) (auto split: list.splits simp: str_split_nonempty)

lemma second_of_split:
  assumes "sep \<notin> set pre"
  shows "list_index (str_split sep (pre @ sep # rest)) 1 = Inr (takeWhile (\<lambda>c. c \<noteq> sep) rest)"
proof -
  obtain w ws where ws: "str_split sep rest = w # ws"
    using str_split_nonempty [of sep rest] by (cases "str_split sep rest") auto
  then have "w = takeWhile (\<lambda>c. c \<noteq> sep) rest"
    using hd_str_split [of sep rest] by simp
  with ws assms show ?thesis
    by (simp add: list_index_def str_split_at_sep)
qed

text \<open>
  C6: on a string that contains \<^verbatim>\<open>data:image\<close> and a comma, the text after the first
  comma is \<open>rest\<close>; the helper base64-decodes \<open>rest\<close> up to its next comma. So it
  decodes everything after the first comma, as the claim says, exactly when no
  second comma follows, and only the piece between the first two commas
  otherwise.
\<close>

theorem b64_payload_second_comma:
  assumes "str_contains ''data:image'' s"
    and "s = pre @ CHR '','' # rest"
    and "CHR '','' \<notin> set pre"
  shows "tl (dropWhile (\<lambda>c. c \<noteq> CHR '','') s) = rest
         \<and> b64_payload s = Inr (takeWhile (\<lambda>c. c \<noteq> CHR '','') rest)
         \<and> (b64_payload s = Inr rest) = (CHR '','' \<notin> set rest)"
proof -
  have strip: "tl (dropWhile (\<lambda>c. c \<noteq> CHR '','') s) = rest"
  proof -
    have "\<And>x. x \<in> set pre \<Longrightarrow> x \<noteq> CHR '',''"
      using assms(3) by auto
    then have "dropWhile (\<lambda>c. c \<noteq> CHR '','') (pre @ CHR '','' # rest) = CHR '','' # rest"
      by simp
    with assms(2) show ?thesis by simp
  qed
  have p: "b64_payload s = Inr (takeWhile (\<lambda>c. c \<noteq> CHR '','') rest)"
    using assms(1) second_of_split [OF assms(3), of rest]
    by (simp add: b64_payload_def assms(2))
  have "(takeWhile (\<lambda>c. c \<noteq> CHR '','') rest = rest) = (CHR '','' \<notin> set rest)"
    by auto
  with strip p show ?thesis by simp
qed

theorem b64_payload_second_comma_witness:
  "tl (dropWhile (\<lambda>c. c \<noteq> CHR '','') ''data:image/png;base64,AAAA,BBBB'') = ''AAAA,BBBB''
   \<and> b64_payload ''data:image/png;base64,AAAA,BBBB'' = Inr ''AAAA''
   \<and> b64_payload ''data:image/png;base64,AAAA,BBBB'' \<noteq> Inr ''AAAA,BBBB''"
proof -
  have c: "str_contains ''data:image'' ''data:image/png;base64,AAAA,BBBB''"
    by simp
  have s: "''data:image/png;base64,AAAA,BBBB'' = ''data:image/png;base64'' @ CHR '','' # ''AAAA,BBBB''"
    by simp
  have n: "CHR '','' \<notin> set ''data:image/png;base64''"
    by simp
  have tw: "takeWhile (\<lambda>c. c \<noteq> CHR '','') ''AAAA,BBBB'' = ''AAAA''"
    by simp
  have two: "CHR '','' \<in> set ''AAAA,BBBB''"
    by simp
  note r = b64_payload_second_comma [OF c s n]
  from r have "tl (dropWhile (\<lambda>c. c \<noteq> CHR '','') ''data:image/png;base64,AAAA,BBBB'') =
      ''AAAA,BBBB''"
    by (rule conjunct1)
  moreover from r tw have "b64_payload ''data:image/png;base64,AAAA,BBBB'' = Inr ''AAAA''"
    by (simp only: )
  moreover from r two have "b64_payload ''data:image/png;base64,AAAA,BBBB'' \<noteq> Inr ''AAAA,BBBB''"
    by blast
  ultimately show ?thesis by blast
qed

text \<open>
  The helper case by case: a string without the text \<^verbatim>\<open>data:image\<close> is decoded as
  it is; one with \<^verbatim>\<open>data:image\<close> and no comma leaves the helper by \<^verbatim>\<open>IndexError\<close>;
  one with \<^verbatim>\<open>data:image\<close> and a comma is decoded from the first comma to the next.
  Whatever is decoded goes through \<^verbatim>\<open>Image.open(...).convert("RGB")\<close>.
\<close>

lemma b64_to_numpy_payload:
  "(\<not> str_contains ''data:image'' s \<longrightarrow>
      b64_to_numpy L s =
        (case b64decode L s of Inl e \<Rightarrow> Inl e | Inr img_bytes \<Rightarrow> open_rgb L img_bytes))
   \<and> (str_contains ''data:image'' s \<and> CHR '','' \<notin> set s \<longrightarrow>
        b64_to_numpy L s = Inl (PyExn IndexError ''list index out of range''))
   \<and> (str_contains ''data:image'' s \<and> s = pre @ CHR '','' # rest \<and> CHR '','' \<notin> set pre \<longrightarrow>
        b64_payload s = Inr (takeWhile (\<lambda>c. c \<noteq> CHR '','') rest)
        \<and> (CHR '','' \<notin> set rest \<longrightarrow> b64_payload s = Inr rest)
        \<and> b64_to_numpy L s =
            (case b64decode L (takeWhile (\<lambda>c. c \<noteq> CHR '','') rest) of
               Inl e \<Rightarrow> Inl e
             | Inr img_bytes \<Rightarrow> open_rgb L img_bytes))"
proof (intro conjI impI)
  assume "\<not> str_contains ''data:image'' s"
  then show "b64_to_numpy L s =
      (case b64decode L s of Inl e \<Rightarrow> Inl e | Inr img_bytes \<Rightarrow> open_rgb L img_bytes)"
    by (simp add: b64_to_numpy_def b64_payload_def)
next
  assume "str_contains ''data:image'' s \<and> CHR '','' \<notin> set s"
  then show "b64_to_numpy L s = Inl (PyExn IndexError ''list index out of range'')"
    by (simp add: b64_to_numpy_def b64_payload_def str_split_no_sep list_index_def)
next
  assume a: "str_contains ''data:image'' s \<and> s = pre @ CHR '','' # rest \<and> CHR '','' \<notin> set pre"
  then have c: "str_contains ''data:image'' s" and s: "s = pre @ CHR '','' # rest"
    and n: "CHR '','' \<notin> set pre"
    by blast+
  show p: "b64_payload s = Inr (takeWhile (\<lambda>c. c \<noteq> CHR '','') rest)"
    using c second_of_split [OF n, of rest] by (simp add: b64_payload_def s)
  show "b64_to_numpy L s =
      (case b64decode L (takeWhile (\<lambda>c. c \<noteq> CHR '','') rest) of
         Inl e \<Rightarrow> Inl e
       | Inr img_bytes \<Rightarrow> open_rgb L img_bytes)"
    using p by (simp add: b64_to_numpy_def)
  assume "CHR '','' \<notin> set rest"
  then have "takeWhile (\<lambda>c. c \<noteq> CHR '','') rest = rest"
    by auto
  with p show "b64_payload s = Inr rest" by simp
qed

lemma tiny_png_b64_plain:
  "\<not> str_contains ''data:image'' tiny_png_b64 \<and> CHR '','' \<notin> set tiny_png_b64"
  by (simp add: tiny_png_b64_def)

lemma data_uri_contains: "str_contains ''data:image'' (''data:image/png;base64'' @ rest)"
  by simp

lemma b64_to_numpy_payload_examples:
  "b64_to_numpy stub_libs tiny_png_b64 = Inr black_pixel
   \<and> b64_to_numpy stub_libs ''data:image/png;base64'' =
       Inl (PyExn IndexError ''list index out of range'')
   \<and> b64_to_numpy stub_libs (''data:image/png;base64'' @ CHR '','' # tiny_png_b64) =
       Inr black_pixel
   \<and> b64_payload (''data:image/png;base64'' @ CHR '','' # ''AAAA,BBBB'') = Inr ''AAAA''"
proof -
  have dec: "b64decode stub_libs tiny_png_b64 = Inr tiny_png"
    by (simp add: stub_libs_def)
  have keep: "takeWhile (\<lambda>c. c \<noteq> CHR '','') tiny_png_b64 = tiny_png_b64"
    using tiny_png_b64_plain by auto
  have c1: "b64_to_numpy stub_libs tiny_png_b64 = Inr black_pixel"
    using b64_to_numpy_payload [of tiny_png_b64 stub_libs] tiny_png_b64_plain
    by (simp add: dec stub_open_tiny)
  have c2: "b64_to_numpy stub_libs ''data:image/png;base64'' =
      Inl (PyExn IndexError ''list index out of range'')"
    using b64_to_numpy_payload [of "''data:image/png;base64''" stub_libs] by simp
  have c3: "b64_to_numpy stub_libs (''data:image/png;base64'' @ CHR '','' # tiny_png_b64) =
      Inr black_pixel"
    using b64_to_numpy_payload
      [of "''data:image/png;base64'' @ CHR '','' # tiny_png_b64" stub_libs
        "''data:image/png;base64''" tiny_png_b64]
      data_uri_contains [of "CHR '','' # tiny_png_b64"]
    by (simp add: keep dec stub_open_tiny)
  have c4: "b64_payload (''data:image/png;base64'' @ CHR '','' # ''AAAA,BBBB'') = Inr ''AAAA''"
    using b64_to_numpy_payload
      [of "''data:image/png;base64'' @ CHR '','' # ''AAAA,BBBB''" stub_libs
        "''data:image/png;base64''" "''AAAA,BBBB''"]
      data_uri_contains [of "CHR '','' # ''AAAA,BBBB''"]
    by simp
  from c1 c2 c3 c4 show ?thesis by simp
qed

subsection \<open>Importing the module\<close>




subsection \<open>What an error response tells the caller\<close>

lemma generate_embedding_try_returns:
  assumes "generate_embedding_try L req = (Inr r, evs)"
  shows "status r = 200
         \<or> (r = \<lparr>status = 400, body = [(''error'', PStr ''No image file provided.'')]\<rparr>
            \<and> evs = [])"
  using assms
  by (auto simp add: generate_embedding_try_def split: option.splits sum.splits)

lemma compare_faces_try_returns:
  assumes "compare_faces_try L req = (Inr r, evs)"
  shows "status r = 200
         \<or> (evs = []
            \<and> (r = \<lparr>status = 400,
                     body = [(''error'', PStr ''No face image provided for comparison.'')]\<rparr>
               \<or> r = \<lparr>status = 400,
                       body = [(''error'', PStr ''No stored embedding provided.'')]\<rparr>))"
  using assms
  by (auto simp add: compare_faces_try_def split: option.splits sum.splits if_splits)

lemma compare_faces_try_no_traceback: "Print_exc x \<notin> set (snd (compare_faces_try L req))"
  by (auto simp add: compare_faces_try_def split: option.splits sum.splits)

text \<open>
  C8, as stated, fails: the 500 response to the upload of an empty file carries
  the text of PIL's exception, object address included.
\<close>

theorem error_text_counterexample:
  "fst (generate_embedding stub_libs (upload ''/generate-embedding'' [])) =
     \<lparr>status = 500,
      body = [(''error'',
               PStr (''An error occurred: '' @
                     ''cannot identify image file <_io.BytesIO object at 0x7f3a5c0b2d10>''))]\<rparr>"
  by (simp add: stub_open_empty unidentified_def generate_embedding_def
      generate_embedding_try_def upload_def)

text \<open>
  C8, amended: the three missing-input responses carry fixed texts. Every other
  error response is written by an exception clause, and its \<^verbatim>\<open>error\<close> text is a
  fixed prefix followed by the text of the exception that left the \<^verbatim>\<open>try\<close> block,
  \<^verbatim>\<open>str(e)\<close>, unfiltered. The traceback is never part of a response: it is printed
  server-side by the clauses that answer 500, and the 400 clause of /compare-faces
  prints nothing.
\<close>

theorem error_text_is_exception_text:
  "(status (fst (generate_embedding L req)) = 400 \<longrightarrow>
      generate_embedding L req =
        (\<lparr>status = 400, body = [(''error'', PStr ''No image file provided.'')]\<rparr>, []))
   \<and> (status (fst (generate_embedding L req)) = 500 \<longrightarrow>
        (\<exists>e evs. generate_embedding_try L req = (Inl e, evs)
           \<and> generate_embedding L req =
               (\<lparr>status = 500,
                 body = [(''error'', PStr (''An error occurred: '' @ exc_str e))]\<rparr>,
                evs @ [Print_exc e])))
   \<and> (status (fst (compare_faces L req)) = 400 \<longrightarrow>
        (\<forall>x. Print_exc x \<notin> set (snd (compare_faces L req)))
        \<and> (compare_faces L req =
              (\<lparr>status = 400,
                body = [(''error'', PStr ''No face image provided for comparison.'')]\<rparr>, [])
           \<or> compare_faces L req =
              (\<lparr>status = 400, body = [(''error'', PStr ''No stored embedding provided.'')]\<rparr>, [])
           \<or> (\<exists>e evs. compare_faces_try L req = (Inl e, evs) \<and> is_ValueError e
                 \<and> compare_faces L req =
                     (\<lparr>status = 400,
                       body = [(''error'', PStr (''Could not process image: '' @ exc_str e)),
                               (''is_match'', PBool False)]\<rparr>,
                      evs))))
   \<and> (status (fst (compare_faces L req)) = 500 \<longrightarrow>
        (\<exists>e evs. compare_faces_try L req = (Inl e, evs) \<and> \<not> is_ValueError e
           \<and> compare_faces L req =
               (\<lparr>status = 500,
                 body = [(''error'',
                          PStr (''An internal error occurred during comparison: '' @ exc_str e)),
                         (''is_match'', PBool False)]\<rparr>,
                evs @ [Print_exc e])))"
proof -
  obtain g gevs where g: "generate_embedding_try L req = (g, gevs)"
    by (cases "generate_embedding_try L req")
  obtain c cevs where c: "compare_faces_try L req = (c, cevs)"
    by (cases "compare_faces_try L req")
  have notb: "\<And>x. Print_exc x \<notin> set cevs"
    using compare_faces_try_no_traceback [of _ L req] c by simp
  have gen400: "status (fst (generate_embedding L req)) = 400 \<longrightarrow>
      generate_embedding L req =
        (\<lparr>status = 400, body = [(''error'', PStr ''No image file provided.'')]\<rparr>, [])"
    using g generate_embedding_try_returns [of L req _ gevs]
    by (cases g) (auto simp add: generate_embedding_def)
  have gen500: "status (fst (generate_embedding L req)) = 500 \<longrightarrow>
      (\<exists>e evs. generate_embedding_try L req = (Inl e, evs)
         \<and> generate_embedding L req =
             (\<lparr>status = 500,
               body = [(''error'', PStr (''An error occurred: '' @ exc_str e))]\<rparr>,
              evs @ [Print_exc e]))"
    using g generate_embedding_try_returns [of L req _ gevs]
    by (cases g) (auto simp add: generate_embedding_def)
  have cmp400: "status (fst (compare_faces L req)) = 400 \<longrightarrow>
      (\<forall>x. Print_exc x \<notin> set (snd (compare_faces L req)))
      \<and> (compare_faces L req =
            (\<lparr>status = 400,
              body = [(''error'', PStr ''No face image provided for comparison.'')]\<rparr>, [])
         \<or> compare_faces L req =
            (\<lparr>status = 400, body = [(''error'', PStr ''No stored embedding provided.'')]\<rparr>, [])
         \<or> (\<exists>e evs. compare_faces_try L req = (Inl e, evs) \<and> is_ValueError e
               \<and> compare_faces L req =
                   (\<lparr>status = 400,
                     body = [(''error'', PStr (''Could not process image: '' @ exc_str e)),
                             (''is_match'', PBool False)]\<rparr>,
                    evs)))"
    using c notb compare_faces_try_returns [of L req _ cevs]
    by (cases c) (auto simp add: compare_faces_def split: if_splits)
  have cmp500: "status (fst (compare_faces L req)) = 500 \<longrightarrow>
      (\<exists>e evs. compare_faces_try L req = (Inl e, evs) \<and> \<not> is_ValueError e
         \<and> compare_faces L req =
             (\<lparr>status = 500,
               body = [(''error'',
                        PStr (''An internal error occurred during comparison: '' @ exc_str e)),
                       (''is_match'', PBool False)]\<rparr>,
              evs @ [Print_exc e]))"
    using c compare_faces_try_returns [of L req _ cevs]
    by (cases c) (auto simp add: compare_faces_def split: if_splits)
  from gen400 gen500 cmp400 cmp500 show ?thesis by blast
qed

theorem error_text_is_exception_text_witness:
  "generate_embedding stub_libs (upload ''/generate-embedding'' []) =
     (\<lparr>status = 500,
       body = [(''error'', PStr (''An error occurred: '' @ exc_str unidentified))]\<rparr>,
      [Print_exc unidentified])
   \<and> compare_faces stub_libs (upload_with ''/compare-faces'' tiny_png ''not json'') =
       (\<lparr>status = 400,
         body = [(''error'', PStr (''Could not process image: '' @ exc_str expecting_value)),
                 (''is_match'', PBool False)]\<rparr>,
        [])"
proof -
  let ?g = "upload ''/generate-embedding'' []"
  let ?c = "upload_with ''/compare-faces'' tiny_png ''not json''"
  have gt: "generate_embedding_try stub_libs ?g = (Inl unidentified, [])"
    by (simp add: generate_embedding_try_def upload_def stub_open_empty)
  then have "status (fst (generate_embedding stub_libs ?g)) = 500"
    by (simp add: generate_embedding_def)
  with error_text_is_exception_text [of stub_libs ?g]
  obtain e evs where "generate_embedding_try stub_libs ?g = (Inl e, evs)"
    and "generate_embedding stub_libs ?g =
           (\<lparr>status = 500, body = [(''error'', PStr (''An error occurred: '' @ exc_str e))]\<rparr>,
            evs @ [Print_exc e])"
    by blast
  with gt have g: "generate_embedding stub_libs ?g =
      (\<lparr>status = 500,
        body = [(''error'', PStr (''An error occurred: '' @ exc_str unidentified))]\<rparr>,
       [Print_exc unidentified])"
    by simp
  have ct: "compare_faces_try stub_libs ?c = (Inl expecting_value, [])"
    by (simp add: compare_faces_try_def upload_with_def stub_open_tiny stub_json_not_json)
  then have c400: "status (fst (compare_faces stub_libs ?c)) = 400"
    by (simp add: compare_faces_def expecting_value_def)
  have body: "body (fst (compare_faces stub_libs ?c)) \<noteq>
        [(''error'', PStr ''No face image provided for comparison.'')]"
      "body (fst (compare_faces stub_libs ?c)) \<noteq>
        [(''error'', PStr ''No stored embedding provided.'')]"
    using ct by (simp_all add: compare_faces_def expecting_value_def)
  from error_text_is_exception_text [of stub_libs ?c] c400
  have "compare_faces stub_libs ?c =
          (\<lparr>status = 400,
            body = [(''error'', PStr ''No face image provided for comparison.'')]\<rparr>, [])
        \<or> compare_faces stub_libs ?c =
          (\<lparr>status = 400, body = [(''error'', PStr ''No stored embedding provided.'')]\<rparr>, [])
        \<or> (\<exists>e evs. compare_faces_try stub_libs ?c = (Inl e, evs) \<and> is_ValueError e
              \<and> compare_faces stub_libs ?c =
                  (\<lparr>status = 400,
                    body = [(''error'', PStr (''Could not process image: '' @ exc_str e)),
                            (''is_match'', PBool False)]\<rparr>,
                   evs))"
    by blast
  with body obtain e evs where "compare_faces_try stub_libs ?c = (Inl e, evs)"
    and "compare_faces stub_libs ?c =
           (\<lparr>status = 400,
             body = [(''error'', PStr (''Could not process image: '' @ exc_str e)),
                     (''is_match'', PBool False)]\<rparr>,
            evs)"
    by auto
  with ct have c: "compare_faces stub_libs ?c =
      (\<lparr>status = 400,
        body = [(''error'', PStr (''Could not process image: '' @ exc_str expecting_value)),
                (''is_match'', PBool False)]\<rparr>,
       [])"
    by simp
  from g c show ?thesis by simp
qed

end
